theory Spec2Isabelle
  imports Main
begin

section \<open>The WebSocket factory: \<^verbatim>\<open>src/transports/websocket/_websocket_factory.ts\<close>\<close>

subsection \<open>The error class (lines 13 to 18)\<close>

text \<open>
  \<^verbatim>\<open>class WebSocketCompatibilityError extends TransportError\<close>.
  The classes are tags; \<open>extends\<close> is the declared superclass,
  \<open>class_depth\<close> the number of superclasses (the measure of the walk) and
  \<open>prototype_chain\<close> the chain that \<^verbatim>\<open>instanceof\<close> walks.
\<close>

datatype error_class = TransportError_class | WebSocketCompatibilityError_class

fun extends :: "error_class \<Rightarrow> error_class option" where
  "extends WebSocketCompatibilityError_class = Some TransportError_class"
| "extends TransportError_class = None"

fun class_depth :: "error_class \<Rightarrow> nat" where
  "class_depth TransportError_class = 0"
| "class_depth WebSocketCompatibilityError_class = 1"

function prototype_chain :: "error_class \<Rightarrow> error_class list" where
  "prototype_chain c =
     c # (case extends c of None \<Rightarrow> [] | Some super \<Rightarrow> prototype_chain super)"
  by pat_completeness auto
termination
proof (relation "measure class_depth")
  show "wf (measure class_depth)"
    by simp
next
  fix c super
  assume "extends c = Some super"
  then show "(super, c) \<in> measure class_depth"
    by (cases c) auto
qed

text \<open>\<^verbatim>\<open>ErrorOptions\<close>: \<^verbatim>\<open>{ cause?: unknown }\<close>.\<close>

record 'e ErrorOptions =
  opt_cause :: "'e option"

text \<open>
  Modelled from the spec: \<^verbatim>\<open>TransportError\<close> is imported from
  \<^verbatim>\<open>../base.ts\<close>, which is not among the sources. The spec gives it as
  "a generic base error type (fields: message, options including a cause reference)":
  an object with an optional message and an optional cause, created with the prototype
  of the class that \<^verbatim>\<open>new\<close> was applied to.
\<close>

record 'e TransportError =
  proto :: error_class
  message :: "string option"
  cause :: "'e option"

definition new_TransportError ::
  "error_class \<Rightarrow> string option \<Rightarrow> 'e ErrorOptions option \<Rightarrow> 'e TransportError" where
  "new_TransportError new_target msg options =
     \<lparr> proto = new_target,
       message = msg,
       cause = (case options of None \<Rightarrow> None | Some opts \<Rightarrow> opt_cause opts) \<rparr>"

text \<open>
  The subclass adds the assignment of line 16, \<^verbatim>\<open>this.name = "WebSocketCompatibilityError"\<close>,
  to the object that \<^verbatim>\<open>super(message, options)\<close> made: a record extension of
  the base object by the one field \<open>name\<close>.
\<close>

record 'e WebSocketCompatibilityError = "'e TransportError" +
  name :: string

definition new_WebSocketCompatibilityError ::
  "string option \<Rightarrow> 'e ErrorOptions option \<Rightarrow> 'e WebSocketCompatibilityError" where
  "new_WebSocketCompatibilityError msg options =
     TransportError.extend
       (new_TransportError WebSocketCompatibilityError_class msg options)
       (WebSocketCompatibilityError.fields ''WebSocketCompatibilityError'')"

definition instanceof :: "('e, 'z) TransportError_scheme \<Rightarrow> error_class \<Rightarrow> bool" where
  "instanceof obj c = (c \<in> set (prototype_chain (proto obj)))"

subsection \<open>The underlying constructor and the runtime\<close>

text \<open>
  \<^verbatim>\<open>url: string | URL\<close> and \<^verbatim>\<open>protocols?: string | string[]\<close>.
  A \<^verbatim>\<open>URL\<close> object is opaque here (type \<open>'u\<close>).
\<close>

datatype 'u url_arg = UrlString string | UrlObject 'u

datatype protocols_arg = NoProtocols | OneProtocol string | ProtocolList "string list"

text \<open>
  The constructor of the \<^verbatim>\<open>ws\<close> package is external: it is a parameter. It
  reads and changes the outside world (type \<open>'w\<close>: it may start a connection) and
  either throws a value (type \<open>'e\<close>, \<open>Inl\<close>) or returns a handle (type \<open>'h\<close>,
  \<open>Inr\<close>).
\<close>

type_synonym ('u, 'e, 'h, 'w) websocket_constructor =
  "'u url_arg \<Rightarrow> protocols_arg \<Rightarrow> 'w \<Rightarrow> ('e + 'h) \<times> 'w"

text \<open>
  The runtime state: the outside world, and the log of the constructions attempted so
  far with the arguments each one received.
\<close>

record ('u, 'w) runtime =
  constructions :: "('u url_arg \<times> protocols_arg) list"
  world :: 'w

text \<open>\<^verbatim>\<open>new WebSocket(url, protocols)\<close>: one logged call of the constructor.\<close>

definition new_WebSocket ::
  "('u, 'e, 'h, 'w) websocket_constructor \<Rightarrow> 'u url_arg \<Rightarrow> protocols_arg \<Rightarrow>
   ('u, 'w) runtime \<Rightarrow> ('e + 'h) \<times> ('u, 'w) runtime" where
  "new_WebSocket ctor url protocols rt =
     (case ctor url protocols (world rt) of
        (outcome, w') \<Rightarrow>
          (outcome, \<lparr> constructions = constructions rt @ [(url, protocols)], world = w' \<rparr>))"

subsection \<open>The factory functions (lines 27 to 55)\<close>

text \<open>
  The template literal \<^verbatim>\<open>`Failed to create WebSocket: ${error}`\<close> of line 32
  converts the caught value to a string. The conversion is the value's own: it may run
  code (a \<^verbatim>\<open>toString\<close> method) and it may throw (a Symbol, an object with no
  usable \<^verbatim>\<open>toString\<close>). It is a parameter, as the type \<open>'e\<close> of thrown
  values is: from a value and the world it gives the string (\<open>Inr\<close>) or the value it
  throws (\<open>Inl\<close>), and the world after.
\<close>

type_synonym ('e, 'w) string_conversion = "'e \<Rightarrow> 'w \<Rightarrow> ('e + string) \<times> 'w"

text \<open>
  What \<open>createCompatibleWebSocketSync\<close> can throw: the error it constructs, or
  the value that the conversion of line 32 threw; the \<^verbatim>\<open>catch\<close> block stands in
  no \<^verbatim>\<open>try\<close> of its own.
\<close>

datatype 'e factory_exception =
    Compatibility "'e WebSocketCompatibilityError"
  | ConversionThrew 'e

definition createCompatibleWebSocketSync ::
  "('u, 'e, 'h, 'w) websocket_constructor \<Rightarrow> ('e, 'w) string_conversion \<Rightarrow>
   'u url_arg \<Rightarrow> protocols_arg \<Rightarrow>
   ('u, 'w) runtime \<Rightarrow> ('e factory_exception + 'h) \<times> ('u, 'w) runtime" where
  "createCompatibleWebSocketSync ctor to_string url protocols rt =
     (case new_WebSocket ctor url protocols rt of
        (Inr ws, rt') \<Rightarrow> (Inr ws, rt')
      | (Inl error, rt') \<Rightarrow>
          (case to_string error (world rt') of
             (Inl thrown, w'') \<Rightarrow>
               (Inl (ConversionThrew thrown), rt'\<lparr> world := w'' \<rparr>)
           | (Inr text, w'') \<Rightarrow>
               (Inl (Compatibility
                       (new_WebSocketCompatibilityError
                          (Some (''Failed to create WebSocket: '' @ text))
                          (Some \<lparr> opt_cause = Some error \<rparr>))),
                rt'\<lparr> world := w'' \<rparr>)))"

text \<open>
  A promise as the caller of an \<^verbatim>\<open>async\<close> function receives it once the body has
  run: fulfilled with the returned value, or rejected with the thrown one. An
  \<^verbatim>\<open>async\<close> function has no synchronous exception, so its result type has none.
  (The handle of the library is not a thenable, which a promise would unwrap.)
\<close>

datatype ('x, 'a) promise = Fulfilled 'a | Rejected 'x

definition createCompatibleWebSocket ::
  "('u, 'e, 'h, 'w) websocket_constructor \<Rightarrow> ('e, 'w) string_conversion \<Rightarrow>
   'u url_arg \<Rightarrow> protocols_arg \<Rightarrow>
   ('u, 'w) runtime \<Rightarrow> ('e factory_exception, 'h) promise \<times> ('u, 'w) runtime" where
  "createCompatibleWebSocket ctor to_string url protocols rt =
     (case createCompatibleWebSocketSync ctor to_string url protocols rt of
        (Inr ws, rt') \<Rightarrow> (Fulfilled ws, rt')
      | (Inl thrown, rt') \<Rightarrow> (Rejected thrown, rt'))"

text \<open>\<^verbatim>\<open>requiresWsPackage()\<close>, in any state \<open>s\<close> of the environment, which it returns.\<close>

definition requiresWsPackage :: "'s \<Rightarrow> bool \<times> 's" where
  "requiresWsPackage s = (False, s)"

section \<open>The environment probe (lines 61 to 78)\<close>

subsection \<open>JavaScript values\<close>

text \<open>
  \<^verbatim>\<open>(globalThis as any).process\<close> has type \<^verbatim>\<open>any\<close>: the probe may meet any
  value. Values are the primitives, plain objects (a list of own properties; the first
  entry of a key counts), functions and \<^verbatim>\<open>String\<close> objects. A function is known
  by a number only: what it does when called lies outside this file. A string is a list of
  code units, each a \<open>char\<close> (code units 0 to 255). A number is one of the values
  \<^verbatim>\<open>parseInt\<close> can return: NaN, the two zeros (\<open>Fin 0\<close> is +0), a finite
  integer, or an infinity.
\<close>

datatype jsnum = NaN | NegZero | Fin int | PosInfinity | NegInfinity

datatype jsval =
    JUndefined
  | JNull
  | JBool bool
  | JNum jsnum
  | JStr string
  | JObj "(string \<times> jsval) list"
  | JFunction nat
  | JStringObject string

text \<open>
  An evaluation throws a TypeError of the runtime, or the value that a function of the
  environment threw.
\<close>

datatype js_exception = TypeError | Thrown jsval

text \<open>The \<^verbatim>\<open>typeof\<close> operator.\<close>

fun typeof :: "jsval \<Rightarrow> string" where
  "typeof JUndefined = ''undefined''"
| "typeof JNull = ''object''"
| "typeof (JBool b) = ''boolean''"
| "typeof (JNum n) = ''number''"
| "typeof (JStr s) = ''string''"
| "typeof (JObj ps) = ''object''"
| "typeof (JFunction f) = ''function''"
| "typeof (JStringObject s) = ''object''"

text \<open>ToBoolean: the truthiness that \<^verbatim>\<open>&&\<close>, \<^verbatim>\<open>? :\<close> and \<^verbatim>\<open>!!\<close> test.\<close>

fun to_boolean :: "jsval \<Rightarrow> bool" where
  "to_boolean JUndefined = False"
| "to_boolean JNull = False"
| "to_boolean (JBool b) = b"
| "to_boolean (JNum n) = (n \<noteq> NaN \<and> n \<noteq> NegZero \<and> n \<noteq> Fin 0)"
| "to_boolean (JStr s) = (s \<noteq> [])"
| "to_boolean (JObj ps) = True"
| "to_boolean (JFunction f) = True"
| "to_boolean (JStringObject s) = True"

text \<open>
  Reading a property, \<^verbatim>\<open>v.key\<close>, for the keys the probe reads
  (\<^verbatim>\<open>process\<close>, \<^verbatim>\<open>versions\<close>, \<^verbatim>\<open>node\<close>; no built-in prototype has
  them): \<^verbatim>\<open>undefined\<close> and \<^verbatim>\<open>null\<close> have no properties and the read
  throws a TypeError; an object gives its own property or \<^verbatim>\<open>undefined\<close>; every
  other value gives \<^verbatim>\<open>undefined\<close>.
\<close>

fun get_property :: "jsval \<Rightarrow> string \<Rightarrow> js_exception + jsval" where
  "get_property JUndefined key = Inl TypeError"
| "get_property JNull key = Inl TypeError"
| "get_property (JObj ps) key =
     Inr (case map_of ps key of None \<Rightarrow> JUndefined | Some v \<Rightarrow> v)"
| "get_property v key = Inr JUndefined"

text \<open>Optional chaining, \<^verbatim>\<open>v?.key\<close>.\<close>

definition optional_get :: "jsval \<Rightarrow> string \<Rightarrow> js_exception + jsval" where
  "optional_get v key =
     (if v = JUndefined \<or> v = JNull then Inr JUndefined else get_property v key)"

text \<open>Sequencing of evaluations that may throw.\<close>

definition and_then :: "'x + 'a \<Rightarrow> ('a \<Rightarrow> 'x + 'b) \<Rightarrow> 'x + 'b" where
  "and_then r f = (case r of Inl ex \<Rightarrow> Inl ex | Inr v \<Rightarrow> f v)"

subsection \<open>\<^verbatim>\<open>String.prototype.split\<close> and \<^verbatim>\<open>parseInt\<close>\<close>

text \<open>\<^verbatim>\<open>s.split(c)\<close> for a separator of one code unit.\<close>

fun split_on :: "char \<Rightarrow> string \<Rightarrow> string list" where
  "split_on sep [] = [[]]"
| "split_on sep (c # cs) =
     (if c = sep then [] # split_on sep cs
      else (case split_on sep cs of
              [] \<Rightarrow> [[c]]
            | part # parts \<Rightarrow> (c # part) # parts))"

text \<open>
  What \<^verbatim>\<open>v.split\<close> is, for the call \<^verbatim>\<open>v.split(".")\<close> of line 70: a
  string and a \<^verbatim>\<open>String\<close> object have the built-in method, which splits their
  characters; a plain object has the method it holds under \<^verbatim>\<open>split\<close>, if that is
  a function; every other value that can stand there (a truthy number, \<^verbatim>\<open>true\<close>,
  a function, an object with no function under \<^verbatim>\<open>split\<close>) has nothing to call.
\<close>

datatype split_method = BuiltinSplit string | OwnSplit nat | NoSplit

fun split_method_of :: "jsval \<Rightarrow> split_method" where
  "split_method_of (JStr s) = BuiltinSplit s"
| "split_method_of (JStringObject s) = BuiltinSplit s"
| "split_method_of (JObj ps) =
     (case map_of ps ''split'' of Some (JFunction f) \<Rightarrow> OwnSplit f | _ \<Rightarrow> NoSplit)"
| "split_method_of v = NoSplit"

text \<open>
  Indexing an array of strings, \<^verbatim>\<open>parts[0]\<close>: \<open>None\<close> is the
  \<^verbatim>\<open>undefined\<close> that an index out of range gives.
\<close>

fun array_first :: "string list \<Rightarrow> string option" where
  "array_first [] = None"
| "array_first (part # parts) = Some part"

text \<open>The string that \<^verbatim>\<open>parseInt\<close> makes of its first argument.\<close>

fun string_of_element :: "string option \<Rightarrow> string" where
  "string_of_element None = ''undefined''"
| "string_of_element (Some s) = s"

text \<open>
  White space that \<^verbatim>\<open>parseInt\<close> skips, among the code units 0 to 255: TAB, LF, VT,
  FF, CR, SP and NBSP.
\<close>

definition is_whitespace :: "char \<Rightarrow> bool" where
  "is_whitespace c = ((of_char c :: nat) \<in> {9, 10, 11, 12, 13, 32, 160})"

definition is_digit :: "char \<Rightarrow> bool" where
  "is_digit c = (48 \<le> (of_char c :: nat) \<and> (of_char c :: nat) \<le> 57)"

definition digit_value :: "char \<Rightarrow> nat" where
  "digit_value c = (of_char c :: nat) - 48"

text \<open>The integer that a string of decimal digits denotes.\<close>

definition decimal_value :: "string \<Rightarrow> nat" where
  "decimal_value ds = foldl (\<lambda>acc c. 10 * acc + digit_value c) 0 ds"

text \<open>The number of binary digits of \<open>n\<close>.\<close>

fun bit_length :: "nat \<Rightarrow> nat" where
  "bit_length n = (if n = 0 then 0 else Suc (bit_length (n div 2)))"

text \<open>
  The Number value of a positive integer \<open>n\<close>: \<open>n\<close> itself below \<open>2 ^ 53\<close>, else
  the nearest integer with 53 significant binary digits (ties to the even one), and no
  finite value (\<open>None\<close>: Infinity) from \<open>2 ^ 1024\<close> on.
\<close>

definition round_to_double :: "nat \<Rightarrow> nat option" where
  "round_to_double n =
     (if n < 2 ^ 53 then Some n
      else
        let shift = bit_length n - 53;
            q = n div 2 ^ shift;
            r = n mod 2 ^ shift;
            half = 2 ^ (shift - 1);
            q' = (if half < r \<or> (r = half \<and> odd q) then q + 1 else q);
            v = q' * 2 ^ shift
        in if 2 ^ 1024 \<le> v then None else Some v)"

text \<open>
  \<^verbatim>\<open>parseInt(s, 10)\<close>: skip leading white space, read one sign, take the
  longest prefix of decimal digits (\<open>numeral_prefix\<close>); no digit gives NaN, zero
  keeps the sign, and any other integer is converted to a Number.
\<close>

definition unsigned_part :: "string \<Rightarrow> string" where
  "unsigned_part trimmed =
     (case trimmed of
        [] \<Rightarrow> []
      | c # cs \<Rightarrow> if c = CHR ''+'' \<or> c = CHR ''-'' then cs else trimmed)"

definition numeral_prefix :: "string \<Rightarrow> string" where
  "numeral_prefix s = takeWhile is_digit (unsigned_part (dropWhile is_whitespace s))"

definition parseInt_10 :: "string \<Rightarrow> jsnum" where
  "parseInt_10 s =
     (let trimmed = dropWhile is_whitespace s;
          negative = (case trimmed of [] \<Rightarrow> False | c # cs \<Rightarrow> c = CHR ''-'');
          digits = numeral_prefix s
      in if digits = [] then NaN
         else if decimal_value digits = 0 then (if negative then NegZero else Fin 0)
         else (case round_to_double (decimal_value digits) of
                 None \<Rightarrow> if negative then NegInfinity else PosInfinity
               | Some v \<Rightarrow> Fin (if negative then - int v else int v)))"

subsection \<open>\<^verbatim>\<open>getWebSocketEnvironmentInfo\<close>\<close>

text \<open>
  The returned object literal. The function \<open>requiresWsPackage\<close> has the name of the
  fourth field, which is \<open>requiresWsPackage_field\<close> here.
\<close>

record environment_info =
  isNode :: jsval
  nodeMajorVersion :: jsval
  hasReliableNativeWebSocket :: jsval
  requiresWsPackage_field :: jsval

text \<open>
  Line 70 on a truthy \<open>node\<close>: \<^verbatim>\<open>parseInt(node.split(".")[0], 10)\<close>. With the
  built-in method it is the parse of the first part. With a method \<open>f\<close> of the
  object's own, what \<open>f\<close> returns is decided outside this file, and so is what indexing
  and \<^verbatim>\<open>parseInt\<close> make of it: the evaluation throws, or \<^verbatim>\<open>parseInt\<close>
  returns one of its Numbers. That outcome is the parameter \<open>own_split f node\<close>.
  With nothing to call the call throws a TypeError.
\<close>

type_synonym own_split_outcome = "nat \<Rightarrow> jsval \<Rightarrow> js_exception + jsnum"

definition parse_major_version :: "own_split_outcome \<Rightarrow> jsval \<Rightarrow> js_exception + jsnum" where
  "parse_major_version own_split node =
     (case split_method_of node of
        BuiltinSplit s \<Rightarrow>
          Inr (parseInt_10 (string_of_element (array_first (split_on CHR ''.'' s))))
      | OwnSplit f \<Rightarrow> own_split f node
      | NoSplit \<Rightarrow> Inl TypeError)"

text \<open>
  The argument \<open>globalThis\<close> is the global object, as its list of properties.
  Line 68 reads \<^verbatim>\<open>process\<close>; line 69 is the probe
  \<^verbatim>\<open>typeof globalProcess !== "undefined" && globalProcess.versions?.node\<close>, whose
  value is \<^verbatim>\<open>false\<close> or whatever \<^verbatim>\<open>node\<close> holds; line 70 parses the
  version when the probe is truthy; lines 72 to 77 build the result.
\<close>

definition getWebSocketEnvironmentInfo ::
  "own_split_outcome \<Rightarrow> (string \<times> jsval) list \<Rightarrow> js_exception + environment_info" where
  "getWebSocketEnvironmentInfo own_split globalThis =
     and_then (get_property (JObj globalThis) ''process'') (\<lambda>globalProcess.
     and_then
       (if typeof globalProcess \<noteq> ''undefined''
        then and_then (get_property globalProcess ''versions'') (\<lambda>versions.
               optional_get versions ''node'')
        else Inr (JBool False)) (\<lambda>isNode.
     and_then
       (if to_boolean isNode
        then and_then (get_property globalProcess ''versions'') (\<lambda>versions.
             and_then (get_property versions ''node'') (\<lambda>node.
             and_then (parse_major_version own_split node) (\<lambda>major.
               Inr (JNum major))))
        else Inr JNull) (\<lambda>nodeMajorVersion.
     Inr \<lparr> isNode = JBool (to_boolean isNode),
           nodeMajorVersion = nodeMajorVersion,
           hasReliableNativeWebSocket = JBool True,
           requiresWsPackage_field = JBool False \<rparr>)))"

section \<open>The vocabulary of the claims about the probe\<close>

text \<open>
  "The version the process global reports" is the value found at
  \<^verbatim>\<open>process.versions.node\<close> of the global object, and \<^verbatim>\<open>undefined\<close>
  where a link of that path is missing. \<open>property_of\<close> never throws: it is the
  lookup of the claims, not the property read of the code.
\<close>

fun property_of :: "jsval \<Rightarrow> string \<Rightarrow> jsval" where
  "property_of (JObj ps) key = (case map_of ps key of None \<Rightarrow> JUndefined | Some v \<Rightarrow> v)"
| "property_of v key = JUndefined"

definition reported_version :: "(string \<times> jsval) list \<Rightarrow> jsval" where
  "reported_version globalThis =
     property_of (property_of (property_of (JObj globalThis) ''process'') ''versions'') ''node''"

text \<open>
  "The leading base-10 integer component" of a version string, in the words of the spec:
  the part before the first dot, when it is a numeral (one decimal digit or more and
  nothing else), read in positional notation.
\<close>

definition decimal_digit :: "char \<Rightarrow> nat option" where
  "decimal_digit = map_of (zip ''0123456789'' [0 ..< 10])"

fun positional_value :: "string \<Rightarrow> nat" where
  "positional_value [] = 0"
| "positional_value (c # cs) =
     (case decimal_digit c of None \<Rightarrow> 0 | Some d \<Rightarrow> d) * 10 ^ length cs + positional_value cs"

definition leading_component :: "string \<Rightarrow> string" where
  "leading_component version = takeWhile (\<lambda>c. c \<noteq> CHR ''.'') version"

definition leading_integer_component :: "string \<Rightarrow> nat option" where
  "leading_integer_component version =
     (let component = leading_component version
      in if component \<noteq> [] \<and> list_all (\<lambda>c. decimal_digit c \<noteq> None) component
         then Some (positional_value component)
         else None)"

section \<open>Concrete collaborators to run the functions on\<close>

text \<open>
  Thrown values: an \<^verbatim>\<open>Error\<close> object, which shows its name and its message to a
  template literal, and a Symbol. \<open>thrown_toString\<close> is their conversion to a string:
  \<^verbatim>\<open>Error.prototype.toString\<close> for the first, and for a Symbol the TypeError that
  the runtime throws; the world is left as it was.
\<close>

datatype thrown_value =
    ThrownError (thrown_name: string) (thrown_message: string)
  | ThrownSymbol (symbol_description: string)

fun thrown_toString :: "(thrown_value, 'w) string_conversion" where
  "thrown_toString (ThrownError n m) w =
     (Inr (if n = [] then m else if m = [] then n else n @ '': '' @ m), w)"
| "thrown_toString (ThrownSymbol d) w =
     (Inl (ThrownError ''TypeError'' ''Cannot convert a Symbol value to a string''), w)"

text \<open>
  A constructor in the shape of the library's, for running the factory on concrete
  inputs: it accepts a \<^verbatim>\<open>URL\<close> object and a string that starts with
  \<^verbatim>\<open>ws://\<close> (the handle is the address, the world counts the connections opened)
  and throws a \<^verbatim>\<open>SyntaxError\<close> on any other string.
\<close>

definition sample_constructor :: "(string, thrown_value, string, nat) websocket_constructor" where
  "sample_constructor url protocols w =
     (case url of
        UrlObject href \<Rightarrow> (Inr href, Suc w)
      | UrlString s \<Rightarrow>
          if take 5 s = ''ws://'' then (Inr s, Suc w)
          else (Inl (ThrownError ''SyntaxError'' (''Invalid URL: '' @ s)), w))"

text \<open>A constructor that throws the value it is given, whatever the arguments.\<close>

definition throwing_constructor ::
  "thrown_value \<Rightarrow> (string, thrown_value, string, nat) websocket_constructor" where
  "throwing_constructor e url protocols w = (Inl e, w)"

text \<open>
  Methods of the environment, for running the probe on concrete inputs: the function 0
  is \<^verbatim>\<open>() => ['20']\<close>, whose first element parses to 20; every other function
  throws the string \<^verbatim>\<open>"boom"\<close>.
\<close>

definition sample_own_split :: own_split_outcome where
  "sample_own_split f node = (if f = 0 then Inr (Fin 20) else Inl (Thrown (JStr ''boom'')))"

section \<open>Properties of the factory\<close>

text \<open>
  C1, as the code has it. A constructor that throws a Symbol: the template literal of
  line 32 cannot convert it, and what \<open>createCompatibleWebSocketSync\<close> throws is the
  TypeError of that conversion, not a \<open>WebSocketCompatibilityError\<close>.
\<close>

theorem createCompatibleWebSocketSync_symbol_counterexample:
  "throwing_constructor (ThrownSymbol ''tag'') (UrlString ''ws://example.test'') NoProtocols 0 =
     (Inl (ThrownSymbol ''tag''), 0)
   \<and> createCompatibleWebSocketSync (throwing_constructor (ThrownSymbol ''tag'')) thrown_toString
        (UrlString ''ws://example.test'') NoProtocols \<lparr> constructions = [], world = 0 \<rparr> =
       (Inl (ConversionThrew
               (ThrownError ''TypeError'' ''Cannot convert a Symbol value to a string'')),
        \<lparr> constructions = [(UrlString ''ws://example.test'', NoProtocols)], world = 0 \<rparr>)"
  by (simp add: createCompatibleWebSocketSync_def new_WebSocket_def throwing_constructor_def)

text \<open>
  C1, amended. When the underlying constructor throws a value \<open>e\<close> whose conversion
  to a string succeeds with the text \<open>s\<close>, \<open>createCompatibleWebSocketSync\<close> throws a
  \<open>WebSocketCompatibilityError\<close> whose message is
  \<^verbatim>\<open>"Failed to create WebSocket: "\<close> followed by \<open>s\<close> and whose cause is \<open>e\<close>
  itself, after the one logged construction. When the conversion of \<open>e\<close> throws, the
  value it throws is what the function throws. And the function throws in no other case:
  whatever it throws, the constructor has thrown.
\<close>

theorem createCompatibleWebSocketSync_failure:
  "(ctor url protocols (world rt) = (Inl e, w') \<and> to_string e w' = (Inr s, w'') \<longrightarrow>
      createCompatibleWebSocketSync ctor to_string url protocols rt =
        (Inl (Compatibility
                \<lparr> proto = WebSocketCompatibilityError_class,
                  message = Some (''Failed to create WebSocket: '' @ s),
                  cause = Some e,
                  name = ''WebSocketCompatibilityError'' \<rparr>),
         \<lparr> constructions = constructions rt @ [(url, protocols)], world = w'' \<rparr>))
   \<and> (ctor url protocols (world rt) = (Inl e, w') \<and> to_string e w' = (Inl thrown, w'') \<longrightarrow>
      createCompatibleWebSocketSync ctor to_string url protocols rt =
        (Inl (ConversionThrew thrown),
         \<lparr> constructions = constructions rt @ [(url, protocols)], world = w'' \<rparr>))
   \<and> (createCompatibleWebSocketSync ctor to_string url protocols rt = (Inl x, rt') \<longrightarrow>
        (\<exists>e' w1. ctor url protocols (world rt) = (Inl e', w1)))"
  by (auto simp: createCompatibleWebSocketSync_def new_WebSocket_def
        new_WebSocketCompatibilityError_def new_TransportError_def
        TransportError.extend_def WebSocketCompatibilityError.fields_def
        split: prod.splits sum.splits)

theorem createCompatibleWebSocketSync_failure_witness:
  "sample_constructor (UrlString ''not-a-valid-url'') NoProtocols 0 =
     (Inl (ThrownError ''SyntaxError'' ''Invalid URL: not-a-valid-url''), 0)
   \<and> thrown_toString (ThrownError ''SyntaxError'' ''Invalid URL: not-a-valid-url'') (0::nat) =
     (Inr ''SyntaxError: Invalid URL: not-a-valid-url'', 0)
   \<and> createCompatibleWebSocketSync sample_constructor thrown_toString
        (UrlString ''not-a-valid-url'') NoProtocols \<lparr> constructions = [], world = 0 \<rparr> =
        (Inl (Compatibility
                \<lparr> proto = WebSocketCompatibilityError_class,
                  message = Some ''Failed to create WebSocket: SyntaxError: Invalid URL: not-a-valid-url'',
                  cause = Some (ThrownError ''SyntaxError'' ''Invalid URL: not-a-valid-url''),
                  name = ''WebSocketCompatibilityError'' \<rparr>),
         \<lparr> constructions = [(UrlString ''not-a-valid-url'', NoProtocols)], world = 0 \<rparr>)
   \<and> thrown_toString (ThrownSymbol ''id'') (3::nat) =
     (Inl (ThrownError ''TypeError'' ''Cannot convert a Symbol value to a string''), 3)
   \<and> createCompatibleWebSocketSync (throwing_constructor (ThrownSymbol ''id'')) thrown_toString
        (UrlObject ''ws://example.test/'') (ProtocolList [''a'', ''b''])
        \<lparr> constructions = [], world = 3 \<rparr> =
        (Inl (ConversionThrew
                (ThrownError ''TypeError'' ''Cannot convert a Symbol value to a string'')),
         \<lparr> constructions = [(UrlObject ''ws://example.test/'', ProtocolList [''a'', ''b''])],
           world = 3 \<rparr>)"
  using createCompatibleWebSocketSync_failure
    [where ctor = sample_constructor and url = "UrlString ''not-a-valid-url''"
       and protocols = NoProtocols and rt = "\<lparr> constructions = [], world = 0 \<rparr>"
       and e = "ThrownError ''SyntaxError'' ''Invalid URL: not-a-valid-url''" and w' = 0
       and to_string = thrown_toString
       and s = "''SyntaxError: Invalid URL: not-a-valid-url''" and w'' = 0
       and thrown = "ThrownError ''TypeError'' []"
       and x = "Compatibility
                \<lparr> proto = WebSocketCompatibilityError_class,
                  message = Some ''Failed to create WebSocket: SyntaxError: Invalid URL: not-a-valid-url'',
                  cause = Some (ThrownError ''SyntaxError'' ''Invalid URL: not-a-valid-url''),
                  name = ''WebSocketCompatibilityError'' \<rparr>"
       and rt' = "\<lparr> constructions = [(UrlString ''not-a-valid-url'', NoProtocols)], world = 0 \<rparr>"]
    createCompatibleWebSocketSync_failure
    [where ctor = "throwing_constructor (ThrownSymbol ''id'')"
       and url = "UrlObject ''ws://example.test/''"
       and protocols = "ProtocolList [''a'', ''b'']"
       and rt = "\<lparr> constructions = [], world = 3 \<rparr>"
       and e = "ThrownSymbol ''id''" and w' = 3
       and to_string = thrown_toString
       and s = "[]" and w'' = 3
       and thrown = "ThrownError ''TypeError'' ''Cannot convert a Symbol value to a string''"
       and x = "ConversionThrew
                 (ThrownError ''TypeError'' ''Cannot convert a Symbol value to a string'')"
       and rt' = "\<lparr> constructions = [(UrlObject ''ws://example.test/'', ProtocolList [''a'', ''b''])],
                   world = 3 \<rparr>"]
  by (simp add: sample_constructor_def throwing_constructor_def)

text \<open>
  C2, as the code has it. With the constructor that throws a Symbol the promise is
  rejected with the TypeError of the conversion, not with a
  \<open>WebSocketCompatibilityError\<close>.
\<close>

theorem createCompatibleWebSocket_symbol_counterexample:
  "throwing_constructor (ThrownSymbol ''tag'') (UrlString ''ws://example.test'') NoProtocols 0 =
     (Inl (ThrownSymbol ''tag''), 0)
   \<and> createCompatibleWebSocket (throwing_constructor (ThrownSymbol ''tag'')) thrown_toString
        (UrlString ''ws://example.test'') NoProtocols \<lparr> constructions = [], world = 0 \<rparr> =
       (Rejected (ConversionThrew
               (ThrownError ''TypeError'' ''Cannot convert a Symbol value to a string'')),
        \<lparr> constructions = [(UrlString ''ws://example.test'', NoProtocols)], world = 0 \<rparr>)"
  by (simp add: createCompatibleWebSocket_def createCompatibleWebSocketSync_def
        new_WebSocket_def throwing_constructor_def)

text \<open>
  C2, amended. \<open>createCompatibleWebSocket\<close> delivers in a promise what
  \<open>createCompatibleWebSocketSync\<close> returns or throws, in the same final state: it is
  fulfilled with a handle exactly when the synchronous function returns that handle, and
  rejected with a value exactly when the synchronous function throws that value. So a
  constructor that succeeds gives a promise fulfilled with its handle, and one that throws
  a value whose conversion to a string succeeds gives a promise rejected with the
  \<open>WebSocketCompatibilityError\<close> that wraps the thrown value.
\<close>

theorem createCompatibleWebSocket_equivalent:
  "(createCompatibleWebSocketSync ctor to_string url protocols rt = (Inr ws, rt') \<longleftrightarrow>
      createCompatibleWebSocket ctor to_string url protocols rt = (Fulfilled ws, rt'))
   \<and> (createCompatibleWebSocketSync ctor to_string url protocols rt = (Inl x, rt') \<longleftrightarrow>
      createCompatibleWebSocket ctor to_string url protocols rt = (Rejected x, rt'))
   \<and> (ctor url protocols (world rt) = (Inr ws, w') \<longrightarrow>
      createCompatibleWebSocket ctor to_string url protocols rt =
        (Fulfilled ws, \<lparr> constructions = constructions rt @ [(url, protocols)], world = w' \<rparr>))
   \<and> (ctor url protocols (world rt) = (Inl e, w') \<and> to_string e w' = (Inr s, w'') \<longrightarrow>
      createCompatibleWebSocket ctor to_string url protocols rt =
        (Rejected (Compatibility
                    \<lparr> proto = WebSocketCompatibilityError_class,
                      message = Some (''Failed to create WebSocket: '' @ s),
                      cause = Some e,
                      name = ''WebSocketCompatibilityError'' \<rparr>),
         \<lparr> constructions = constructions rt @ [(url, protocols)], world = w'' \<rparr>))"
  by (auto simp: createCompatibleWebSocket_def createCompatibleWebSocketSync_def new_WebSocket_def
        new_WebSocketCompatibilityError_def new_TransportError_def
        TransportError.extend_def WebSocketCompatibilityError.fields_def
        split: prod.splits sum.splits)

theorem createCompatibleWebSocket_equivalent_witness:
  "sample_constructor (UrlString ''ws://example.test:80/socket'') (OneProtocol ''json'') 0 =
     (Inr ''ws://example.test:80/socket'', 1)
   \<and> createCompatibleWebSocket sample_constructor thrown_toString
        (UrlString ''ws://example.test:80/socket'') (OneProtocol ''json'')
        \<lparr> constructions = [], world = 0 \<rparr> =
       (Fulfilled ''ws://example.test:80/socket'',
        \<lparr> constructions = [(UrlString ''ws://example.test:80/socket'', OneProtocol ''json'')],
          world = 1 \<rparr>)
   \<and> sample_constructor (UrlString ''not-a-valid-url'') NoProtocols 0 =
     (Inl (ThrownError ''SyntaxError'' ''Invalid URL: not-a-valid-url''), 0)
   \<and> createCompatibleWebSocket sample_constructor thrown_toString
        (UrlString ''not-a-valid-url'') NoProtocols \<lparr> constructions = [], world = 0 \<rparr> =
       (Rejected (Compatibility
                   \<lparr> proto = WebSocketCompatibilityError_class,
                     message = Some ''Failed to create WebSocket: SyntaxError: Invalid URL: not-a-valid-url'',
                     cause = Some (ThrownError ''SyntaxError'' ''Invalid URL: not-a-valid-url''),
                     name = ''WebSocketCompatibilityError'' \<rparr>),
        \<lparr> constructions = [(UrlString ''not-a-valid-url'', NoProtocols)], world = 0 \<rparr>)"
  using createCompatibleWebSocket_equivalent
    [where ctor = sample_constructor and url = "UrlString ''ws://example.test:80/socket''"
       and protocols = "OneProtocol ''json''" and rt = "\<lparr> constructions = [], world = 0 \<rparr>"
       and ws = "''ws://example.test:80/socket''" and w' = 1 and to_string = thrown_toString
       and e = "ThrownSymbol []" and s = "[]" and w'' = 0
       and x = "ConversionThrew (ThrownSymbol [])"
       and rt' = "\<lparr> constructions = [], world = 0 \<rparr>"]
    createCompatibleWebSocket_equivalent
    [where ctor = sample_constructor and url = "UrlString ''not-a-valid-url''"
       and protocols = NoProtocols and rt = "\<lparr> constructions = [], world = 0 \<rparr>"
       and e = "ThrownError ''SyntaxError'' ''Invalid URL: not-a-valid-url''" and w' = 0
       and to_string = thrown_toString
       and s = "''SyntaxError: Invalid URL: not-a-valid-url''" and w'' = 0
       and ws = "[]" and x = "ConversionThrew (ThrownSymbol [])"
       and rt' = "\<lparr> constructions = [], world = 0 \<rparr>"]
  by (simp add: sample_constructor_def)

text \<open>
  C7. \<open>requiresWsPackage\<close> returns \<^verbatim>\<open>false\<close> in every state, the same in any
  two states, and leaves the state as it was.
\<close>

theorem requiresWsPackage_constant:
  "fst (requiresWsPackage s) = False \<and> snd (requiresWsPackage s) = s
   \<and> fst (requiresWsPackage s) = fst (requiresWsPackage s')"
  by (simp add: requiresWsPackage_def)

text \<open>
  C8. When the underlying constructor accepts \<open>(url, protocols)\<close> and returns a handle,
  \<open>createCompatibleWebSocketSync\<close> returns that very handle and throws nothing, and
  the log of constructions has grown by exactly one entry, which holds the two arguments as
  they were given; the world is as that one call left it.
\<close>

theorem createCompatibleWebSocketSync_success:
  "ctor url protocols (world rt) = (Inr ws, w') \<Longrightarrow>
     createCompatibleWebSocketSync ctor to_string url protocols rt =
       (Inr ws, \<lparr> constructions = constructions rt @ [(url, protocols)], world = w' \<rparr>)"
  by (simp add: createCompatibleWebSocketSync_def new_WebSocket_def)

theorem createCompatibleWebSocketSync_success_witness:
  "sample_constructor (UrlString ''ws://example.test:80/socket'') NoProtocols 0 =
     (Inr ''ws://example.test:80/socket'', 1)
   \<and> createCompatibleWebSocketSync sample_constructor thrown_toString
        (UrlString ''ws://example.test:80/socket'') NoProtocols \<lparr> constructions = [], world = 0 \<rparr> =
       (Inr ''ws://example.test:80/socket'',
        \<lparr> constructions = [(UrlString ''ws://example.test:80/socket'', NoProtocols)], world = 1 \<rparr>)"
  using createCompatibleWebSocketSync_success
    [where ctor = sample_constructor and url = "UrlString ''ws://example.test:80/socket''"
       and protocols = NoProtocols and rt = "\<lparr> constructions = [], world = 0 \<rparr>"
       and ws = "''ws://example.test:80/socket''" and w' = 1 and to_string = thrown_toString]
  by (simp add: sample_constructor_def)

text \<open>
  C9. For any message and any options, present or absent, a constructed
  \<open>WebSocketCompatibilityError\<close> has the name \<^verbatim>\<open>"WebSocketCompatibilityError"\<close>,
  is an instance of the transport error class (and of its own), and is the transport error
  that \<^verbatim>\<open>super(message, options)\<close> made plus that name: prototype, message, cause
  and name are all it holds.
\<close>

theorem new_WebSocketCompatibilityError_shape:
  "new_WebSocketCompatibilityError msg options =
     \<lparr> proto = WebSocketCompatibilityError_class,
       message = msg,
       cause = (case options of None \<Rightarrow> None | Some opts \<Rightarrow> opt_cause opts),
       name = ''WebSocketCompatibilityError'' \<rparr>
   \<and> name (new_WebSocketCompatibilityError msg options) = ''WebSocketCompatibilityError''
   \<and> instanceof (new_WebSocketCompatibilityError msg options) TransportError_class
   \<and> instanceof (new_WebSocketCompatibilityError msg options) WebSocketCompatibilityError_class
   \<and> TransportError.truncate (new_WebSocketCompatibilityError msg options) =
       new_TransportError WebSocketCompatibilityError_class msg options"
  by (simp add: new_WebSocketCompatibilityError_def new_TransportError_def instanceof_def
        TransportError.extend_def WebSocketCompatibilityError.fields_def TransportError.truncate_def)

theorem new_WebSocketCompatibilityError_shape_witness:
  "name (new_WebSocketCompatibilityError None (None :: nat ErrorOptions option)) = ''WebSocketCompatibilityError''
   \<and> new_WebSocketCompatibilityError (Some ''boom'') (None :: nat ErrorOptions option) =
       \<lparr> proto = WebSocketCompatibilityError_class, message = Some ''boom'', cause = None,
         name = ''WebSocketCompatibilityError'' \<rparr>
   \<and> new_WebSocketCompatibilityError None (Some \<lparr> opt_cause = Some (7::nat) \<rparr>) =
       \<lparr> proto = WebSocketCompatibilityError_class, message = None, cause = Some 7,
         name = ''WebSocketCompatibilityError'' \<rparr>
   \<and> new_WebSocketCompatibilityError (Some ''boom'') (Some \<lparr> opt_cause = (None :: nat option) \<rparr>) =
       \<lparr> proto = WebSocketCompatibilityError_class, message = Some ''boom'', cause = None,
         name = ''WebSocketCompatibilityError'' \<rparr>"
  using new_WebSocketCompatibilityError_shape [of None "None :: nat ErrorOptions option"]
    new_WebSocketCompatibilityError_shape [of "Some ''boom''" "None :: nat ErrorOptions option"]
    new_WebSocketCompatibilityError_shape [of None "Some \<lparr> opt_cause = Some (7::nat) \<rparr>"]
    new_WebSocketCompatibilityError_shape [of "Some ''boom''" "Some \<lparr> opt_cause = (None :: nat option) \<rparr>"]
  by simp

section \<open>Properties of the environment probe\<close>

subsection \<open>Splitting and parsing\<close>

lemma split_on_first: "array_first (split_on sep s) = Some (takeWhile (\<lambda>c. c \<noteq> sep) s)"
  by (induction s) (auto split: list.splits)

lemma parse_major_version_string:
  "parse_major_version own_split (JStr version) = Inr (parseInt_10 (leading_component version))"
  by (simp add: parse_major_version_def split_on_first leading_component_def)

lemma is_digit_cases:
  "is_digit c \<longleftrightarrow> c \<in> set ''0123456789''"
proof
  assume "is_digit c"
  then have "(of_char c :: nat) \<in> {48, 49, 50, 51, 52, 53, 54, 55, 56, 57}"
    unfolding is_digit_def by simp presburger
  then have "(of_char c :: nat) \<in> of_char ` set ''0123456789''"
    by simp
  then show "c \<in> set ''0123456789''"
    by (auto simp del: set_simps)
next
  assume "c \<in> set ''0123456789''"
  then show "is_digit c"
    by (auto simp: is_digit_def)
qed

lemma decimal_digit_digit_value:
  "decimal_digit c = (if is_digit c then Some (digit_value c) else None)"
  unfolding is_digit_cases
  by (simp add: decimal_digit_def digit_value_def upt_conv_Cons)

lemma digit_not_space_or_sign:
  "is_digit c \<Longrightarrow> \<not> is_whitespace c \<and> c \<noteq> CHR ''+'' \<and> c \<noteq> CHR ''-''"
  by (auto simp: is_digit_def is_whitespace_def)

lemma horner_positional:
  "list_all is_digit ds \<Longrightarrow>
   foldl (\<lambda>acc c. 10 * acc + digit_value c) acc ds = acc * 10 ^ length ds + positional_value ds"
  by (induction ds arbitrary: acc) (simp_all add: decimal_digit_digit_value algebra_simps)

lemma decimal_value_positional:
  "list_all is_digit ds \<Longrightarrow> decimal_value ds = positional_value ds"
  by (simp add: decimal_value_def horner_positional)

lemma numeral_prefix_digits:
  assumes "ds \<noteq> []" and "list_all is_digit ds"
  shows "numeral_prefix ds = ds \<and> dropWhile is_whitespace ds = ds"
proof -
  from assms obtain c cs where ds: "ds = c # cs" and c: "is_digit c"
    by (cases ds) auto
  from c have "\<not> is_whitespace c" "c \<noteq> CHR ''+''" "c \<noteq> CHR ''-''"
    using digit_not_space_or_sign by blast+
  with assms ds show ?thesis
    by (simp add: numeral_prefix_def unsigned_part_def list_all_iff)
qed

lemma parseInt_10_numeral:
  assumes "leading_integer_component version = Some major" and "major < 2 ^ 53"
  shows "parseInt_10 (leading_component version) = Fin (int major)"
proof -
  let ?ds = "leading_component version"
  from assms(1) have ne: "?ds \<noteq> []" and digits: "list_all is_digit ?ds"
    and major: "major = positional_value ?ds"
    by (auto simp: leading_integer_component_def Let_def decimal_digit_digit_value
          list_all_iff split: if_splits)
  from ne digits have prefix: "numeral_prefix ?ds = ?ds" "dropWhile is_whitespace ?ds = ?ds"
    using numeral_prefix_digits by blast+
  from ne digits obtain c cs where ds: "?ds = c # cs" and c: "is_digit c"
    by (cases ?ds) auto
  from c have not_minus: "c \<noteq> CHR ''-''"
    using digit_not_space_or_sign by blast
  have horner: "decimal_value ?ds = major"
    using digits major by (simp add: decimal_value_positional)
  show ?thesis
    using assms(2) ne not_minus
    by (simp add: parseInt_10_def Let_def prefix horner round_to_double_def ds [symmetric])
       (simp add: ds)
qed

text \<open>Signs and white space, as \<^verbatim>\<open>parseInt\<close> reads them.\<close>

lemma parseInt_10_signs:
  "parseInt_10 ''-12abc'' = Fin (- 12)" "parseInt_10 ''+7'' = Fin 7"
  "parseInt_10 ''  42'' = Fin 42" "parseInt_10 ''-0'' = NegZero" "parseInt_10 ''-'' = NaN"
  by (simp_all add: parseInt_10_def numeral_prefix_def unsigned_part_def is_digit_def
        is_whitespace_def decimal_value_def digit_value_def round_to_double_def)

subsection \<open>The probe of line 69 and the branch of line 70\<close>

lemma probe_value:
  assumes "p \<noteq> JNull" and "p \<noteq> JUndefined"
  shows "get_property p ''versions'' = Inr (property_of p ''versions'')"
    and "optional_get (property_of p ''versions'') ''node'' =
           Inr (property_of (property_of p ''versions'') ''node'')"
proof -
  show "get_property p ''versions'' = Inr (property_of p ''versions'')"
    using assms by (cases p) simp_all
  show "optional_get (property_of p ''versions'') ''node'' =
           Inr (property_of (property_of p ''versions'') ''node'')"
    by (cases "property_of p ''versions''") (simp_all add: optional_get_def)
qed

lemma truthy_node_read:
  assumes "to_boolean (property_of vs ''node'')"
  shows "get_property vs ''node'' = Inr (property_of vs ''node'')"
  using assms by (cases vs) simp_all

lemma probe_result:
  assumes "map_of globalThis ''process'' \<noteq> Some JNull"
  shows "getWebSocketEnvironmentInfo own_split globalThis =
           (if to_boolean (reported_version globalThis)
            then and_then (parse_major_version own_split (reported_version globalThis))
                   (\<lambda>major. Inr \<lparr> isNode = JBool True, nodeMajorVersion = JNum major,
                                    hasReliableNativeWebSocket = JBool True,
                                    requiresWsPackage_field = JBool False \<rparr>)
            else Inr \<lparr> isNode = JBool False, nodeMajorVersion = JNull,
                       hasReliableNativeWebSocket = JBool True,
                       requiresWsPackage_field = JBool False \<rparr>)"
proof -
  define p where "p = property_of (JObj globalThis) ''process''"
  have read: "get_property (JObj globalThis) ''process'' = Inr p"
    by (simp add: p_def)
  have reported: "reported_version globalThis = property_of (property_of p ''versions'') ''node''"
    by (simp add: reported_version_def p_def)
  from assms have not_null: "p \<noteq> JNull"
    by (auto simp: p_def split: option.splits)
  show ?thesis
  proof (cases "p = JUndefined")
    case True
    then show ?thesis
      unfolding getWebSocketEnvironmentInfo_def read reported
      by (simp add: and_then_def)
  next
    case False
    then have typeof: "typeof p \<noteq> ''undefined''"
      by (cases p) simp_all
    show ?thesis
    proof (cases "to_boolean (property_of (property_of p ''versions'') ''node'')")
      case True
      then show ?thesis
        unfolding getWebSocketEnvironmentInfo_def read reported
        using typeof probe_value [OF not_null False] truthy_node_read [OF True]
        by (simp add: and_then_def split: sum.splits)
    next
      case False
      then show ?thesis
        unfolding getWebSocketEnvironmentInfo_def read reported
        using typeof probe_value [OF not_null \<open>p \<noteq> JUndefined\<close>]
        by (simp add: and_then_def)
    qed
  qed
qed

lemma no_version:
  assumes "map_of globalThis ''process'' \<noteq> Some JNull"
      and "\<not> to_boolean (reported_version globalThis)"
  shows "getWebSocketEnvironmentInfo own_split globalThis =
           Inr \<lparr> isNode = JBool False, nodeMajorVersion = JNull,
                 hasReliableNativeWebSocket = JBool True, requiresWsPackage_field = JBool False \<rparr>"
  using assms by (simp add: probe_result)

lemma reported_version_of_null:
  "map_of globalThis ''process'' = Some JNull \<Longrightarrow> reported_version globalThis = JUndefined"
  by (simp add: reported_version_def)

lemma string_version:
  assumes "reported_version globalThis = JStr version" and "version \<noteq> []"
  shows "getWebSocketEnvironmentInfo own_split globalThis =
           Inr \<lparr> isNode = JBool True,
                 nodeMajorVersion = JNum (parseInt_10 (leading_component version)),
                 hasReliableNativeWebSocket = JBool True, requiresWsPackage_field = JBool False \<rparr>"
proof -
  have "map_of globalThis ''process'' \<noteq> Some JNull"
    using assms(1) reported_version_of_null by fastforce
  then show ?thesis
    using assms by (simp add: probe_result parse_major_version_string and_then_def)
qed

lemma probe_throws_on_null:
  "map_of globalThis ''process'' = Some JNull \<Longrightarrow>
   getWebSocketEnvironmentInfo own_split globalThis = Inl TypeError"
  by (simp add: getWebSocketEnvironmentInfo_def and_then_def)

lemma returned_isNode:
  assumes "getWebSocketEnvironmentInfo own_split globalThis = Inr r"
  shows "isNode r = JBool (to_boolean (reported_version globalThis))"
proof -
  have "map_of globalThis ''process'' \<noteq> Some JNull"
  proof
    assume "map_of globalThis ''process'' = Some JNull"
    from probe_throws_on_null [OF this, of own_split] assms
    show False by simp
  qed
  from probe_result [OF this, of own_split] assms
  show ?thesis
    by (auto simp: and_then_def split: if_splits sum.splits)
qed

text \<open>Beyond \<open>2 ^ 53\<close> a Number is the nearest double, not the integer read.\<close>

lemma bit_length_beyond_2_53: "bit_length 9007199254740993 = 54"
  by simp

lemma round_to_double_beyond_2_53: "round_to_double 9007199254740993 = Some 9007199254740992"
  by (simp add: round_to_double_def Let_def bit_length_beyond_2_53 del: bit_length.simps)

lemma parseInt_10_beyond_2_53: "parseInt_10 ''9007199254740993'' = Fin 9007199254740992"
proof -
  have "numeral_prefix ''9007199254740993'' = ''9007199254740993''"
    by (simp add: numeral_prefix_def unsigned_part_def is_digit_def is_whitespace_def)
  moreover have "decimal_value ''9007199254740993'' = 9007199254740993"
    by (simp add: decimal_value_def digit_value_def)
  ultimately show ?thesis
    by (simp add: parseInt_10_def Let_def round_to_double_beyond_2_53 is_whitespace_def
          del: bit_length.simps)
qed

subsection \<open>The claims about the probe\<close>

text \<open>
  C3, as the code has it. With \<^verbatim>\<open>globalThis.process = null\<close> no version is
  reported, and the function throws instead of returning \<open>isNode = false\<close>; and with
  the version string \<^verbatim>\<open>"v20.11.0"\<close>, which has no leading integer component,
  \<open>nodeMajorVersion\<close> is NaN.
\<close>

theorem getWebSocketEnvironmentInfo_host_version_counterexample:
  "reported_version [(''process'', JNull)] = JUndefined
   \<and> getWebSocketEnvironmentInfo sample_own_split [(''process'', JNull)] = Inl TypeError
   \<and> leading_integer_component ''v20.11.0'' = None
   \<and> getWebSocketEnvironmentInfo sample_own_split
        [(''process'', JObj [(''versions'', JObj [(''node'', JStr ''v20.11.0'')])])] =
      Inr \<lparr> isNode = JBool True, nodeMajorVersion = JNum NaN,
            hasReliableNativeWebSocket = JBool True, requiresWsPackage_field = JBool False \<rparr>"
  by (simp add: reported_version_def leading_integer_component_def leading_component_def
        decimal_digit_def upt_conv_Cons getWebSocketEnvironmentInfo_def and_then_def
        optional_get_def parse_major_version_def parseInt_10_def numeral_prefix_def
        unsigned_part_def is_digit_def is_whitespace_def)

text \<open>
  C3, amended. When the process global reports a version string whose leading component
  (before the first dot) is a decimal numeral below \<open>2 ^ 53\<close> (where a Number holds
  every integer exactly), \<open>getWebSocketEnvironmentInfo\<close> returns \<open>isNode = true\<close>
  and that integer as \<open>nodeMajorVersion\<close>. When the global is absent, or is there and
  not \<^verbatim>\<open>null\<close> and reports no version or a falsy one, it returns
  \<open>isNode = false\<close> and \<open>nodeMajorVersion = null\<close>.
\<close>

theorem getWebSocketEnvironmentInfo_host_version:
  "(reported_version globalThis = JStr version
      \<and> leading_integer_component version = Some major \<and> major < 2 ^ 53 \<longrightarrow>
    getWebSocketEnvironmentInfo own_split globalThis =
      Inr \<lparr> isNode = JBool True, nodeMajorVersion = JNum (Fin (int major)),
            hasReliableNativeWebSocket = JBool True, requiresWsPackage_field = JBool False \<rparr>)
   \<and> (map_of globalThis ''process'' \<noteq> Some JNull
      \<and> \<not> to_boolean (reported_version globalThis) \<longrightarrow>
    getWebSocketEnvironmentInfo own_split globalThis =
      Inr \<lparr> isNode = JBool False, nodeMajorVersion = JNull,
            hasReliableNativeWebSocket = JBool True, requiresWsPackage_field = JBool False \<rparr>)"
proof (intro conjI impI)
  assume host: "reported_version globalThis = JStr version
    \<and> leading_integer_component version = Some major \<and> major < 2 ^ 53"
  then have "version \<noteq> []"
    by (auto simp: leading_integer_component_def leading_component_def)
  with host show "getWebSocketEnvironmentInfo own_split globalThis =
      Inr \<lparr> isNode = JBool True, nodeMajorVersion = JNum (Fin (int major)),
            hasReliableNativeWebSocket = JBool True, requiresWsPackage_field = JBool False \<rparr>"
    by (simp add: string_version parseInt_10_numeral)
next
  assume "map_of globalThis ''process'' \<noteq> Some JNull
      \<and> \<not> to_boolean (reported_version globalThis)"
  then show "getWebSocketEnvironmentInfo own_split globalThis =
      Inr \<lparr> isNode = JBool False, nodeMajorVersion = JNull,
            hasReliableNativeWebSocket = JBool True, requiresWsPackage_field = JBool False \<rparr>"
    by (simp add: no_version)
qed

theorem getWebSocketEnvironmentInfo_host_version_witness:
  "reported_version [(''process'', JObj [(''versions'', JObj [(''node'', JStr ''20.11.0'')])])]
     = JStr ''20.11.0''
   \<and> leading_integer_component ''20.11.0'' = Some 20
   \<and> getWebSocketEnvironmentInfo sample_own_split
        [(''process'', JObj [(''versions'', JObj [(''node'', JStr ''20.11.0'')])])] =
      Inr \<lparr> isNode = JBool True, nodeMajorVersion = JNum (Fin 20),
            hasReliableNativeWebSocket = JBool True, requiresWsPackage_field = JBool False \<rparr>
   \<and> reported_version [] = JUndefined
   \<and> getWebSocketEnvironmentInfo sample_own_split [] =
      Inr \<lparr> isNode = JBool False, nodeMajorVersion = JNull,
            hasReliableNativeWebSocket = JBool True, requiresWsPackage_field = JBool False \<rparr>"
proof -
  have reported: "reported_version
      [(''process'', JObj [(''versions'', JObj [(''node'', JStr ''20.11.0'')])])] = JStr ''20.11.0''"
    by (simp add: reported_version_def)
  have leading: "leading_integer_component ''20.11.0'' = Some 20"
    by (simp add: leading_integer_component_def leading_component_def decimal_digit_def
          upt_conv_Cons)
  have absent: "reported_version [] = JUndefined"
    by (simp add: reported_version_def)
  show ?thesis
    using getWebSocketEnvironmentInfo_host_version
      [of "[(''process'', JObj [(''versions'', JObj [(''node'', JStr ''20.11.0'')])])]"
          "''20.11.0''" 20 sample_own_split]
      getWebSocketEnvironmentInfo_host_version [of "[]" "''20.11.0''" 20 sample_own_split]
      reported leading absent
    by simp
qed

text \<open>
  C4, as the code has it. A version string \<^verbatim>\<open>"v20.11.0"\<close> has no leading integer
  component, and \<open>nodeMajorVersion\<close> is then NaN, not \<^verbatim>\<open>null\<close>.
\<close>

theorem getWebSocketEnvironmentInfo_malformed_counterexample:
  "reported_version [(''process'', JObj [(''versions'', JObj [(''node'', JStr ''v20.11.0'')])])]
     = JStr ''v20.11.0''
   \<and> leading_integer_component ''v20.11.0'' = None
   \<and> getWebSocketEnvironmentInfo sample_own_split
        [(''process'', JObj [(''versions'', JObj [(''node'', JStr ''v20.11.0'')])])] =
      Inr \<lparr> isNode = JBool True, nodeMajorVersion = JNum NaN,
            hasReliableNativeWebSocket = JBool True, requiresWsPackage_field = JBool False \<rparr>
   \<and> JNum NaN \<noteq> JNull"
  by (simp add: reported_version_def leading_integer_component_def leading_component_def
        decimal_digit_def upt_conv_Cons getWebSocketEnvironmentInfo_def and_then_def
        optional_get_def parse_major_version_def parseInt_10_def numeral_prefix_def
        unsigned_part_def is_digit_def is_whitespace_def)

text \<open>
  C4, amended. When the reported version is a string that is not empty and whose leading
  component (before the first dot) does not start with a decimal digit, once leading white
  space and one sign are skipped, \<open>getWebSocketEnvironmentInfo\<close> signals no error and
  returns \<open>isNode = true\<close> with NaN as \<open>nodeMajorVersion\<close>.
\<close>

theorem getWebSocketEnvironmentInfo_malformed_version:
  assumes "reported_version globalThis = JStr version"
      and "version \<noteq> []"
      and "numeral_prefix (leading_component version) = []"
  shows "getWebSocketEnvironmentInfo own_split globalThis =
           Inr \<lparr> isNode = JBool True, nodeMajorVersion = JNum NaN,
                 hasReliableNativeWebSocket = JBool True, requiresWsPackage_field = JBool False \<rparr>"
  using assms by (simp add: string_version parseInt_10_def)

theorem getWebSocketEnvironmentInfo_malformed_version_witness:
  "reported_version [(''process'', JObj [(''versions'', JObj [(''node'', JStr ''abc.1.0'')])])]
     = JStr ''abc.1.0''
   \<and> numeral_prefix (leading_component ''abc.1.0'') = []
   \<and> getWebSocketEnvironmentInfo sample_own_split
        [(''process'', JObj [(''versions'', JObj [(''node'', JStr ''abc.1.0'')])])] =
      Inr \<lparr> isNode = JBool True, nodeMajorVersion = JNum NaN,
            hasReliableNativeWebSocket = JBool True, requiresWsPackage_field = JBool False \<rparr>"
proof -
  have reported: "reported_version
      [(''process'', JObj [(''versions'', JObj [(''node'', JStr ''abc.1.0'')])])] = JStr ''abc.1.0''"
    by (simp add: reported_version_def)
  have prefix: "numeral_prefix (leading_component ''abc.1.0'') = []"
    by (simp add: numeral_prefix_def leading_component_def unsigned_part_def
          is_digit_def is_whitespace_def)
  have nonempty: "''abc.1.0'' \<noteq> []"
    by simp
  from getWebSocketEnvironmentInfo_malformed_version
         [OF reported nonempty prefix, of sample_own_split] reported prefix
  show ?thesis by simp
qed

text \<open>
  C5, as the code has it. With \<^verbatim>\<open>globalThis.process = null\<close> the guard
  \<^verbatim>\<open>typeof globalProcess !== "undefined"\<close> passes (\<^verbatim>\<open>typeof null\<close> is
  \<^verbatim>\<open>"object"\<close>) and reading \<^verbatim>\<open>versions\<close> throws a TypeError.
\<close>

theorem getWebSocketEnvironmentInfo_null_process_counterexample:
  "getWebSocketEnvironmentInfo sample_own_split [(''process'', JNull)] = Inl TypeError"
  by (simp add: getWebSocketEnvironmentInfo_def and_then_def)

text \<open>
  C5, amended. \<open>getWebSocketEnvironmentInfo\<close> returns a result, and throws nothing,
  in every state where the process global is not \<^verbatim>\<open>null\<close> and the version it
  reports is falsy (none among them) or a string; and where the global is absent the
  result is \<open>isNode = false\<close>, \<open>nodeMajorVersion = null\<close>.
\<close>

theorem getWebSocketEnvironmentInfo_returns:
  "(map_of globalThis ''process'' \<noteq> Some JNull
      \<and> (\<not> to_boolean (reported_version globalThis)
           \<or> (\<exists>v. reported_version globalThis = JStr v)) \<longrightarrow>
    (\<exists>r. getWebSocketEnvironmentInfo own_split globalThis = Inr r))
   \<and> (map_of globalThis ''process'' = None \<longrightarrow>
        getWebSocketEnvironmentInfo own_split globalThis =
          Inr \<lparr> isNode = JBool False, nodeMajorVersion = JNull,
                hasReliableNativeWebSocket = JBool True, requiresWsPackage_field = JBool False \<rparr>)"
proof (intro conjI impI)
  assume ok: "map_of globalThis ''process'' \<noteq> Some JNull
      \<and> (\<not> to_boolean (reported_version globalThis)
           \<or> (\<exists>v. reported_version globalThis = JStr v))"
  show "\<exists>r. getWebSocketEnvironmentInfo own_split globalThis = Inr r"
  proof (cases "to_boolean (reported_version globalThis)")
    case True
    with ok obtain v where "reported_version globalThis = JStr v" and "v \<noteq> []"
      by auto
    then show ?thesis
      by (simp add: string_version)
  next
    case False
    with ok show ?thesis
      by (simp add: no_version)
  qed
next
  assume "map_of globalThis ''process'' = None"
  then show "getWebSocketEnvironmentInfo own_split globalThis =
          Inr \<lparr> isNode = JBool False, nodeMajorVersion = JNull,
                hasReliableNativeWebSocket = JBool True, requiresWsPackage_field = JBool False \<rparr>"
    by (simp add: no_version reported_version_def)
qed

theorem getWebSocketEnvironmentInfo_returns_witness:
  "map_of ([] :: (string \<times> jsval) list) ''process'' = None
   \<and> getWebSocketEnvironmentInfo sample_own_split [] =
       Inr \<lparr> isNode = JBool False, nodeMajorVersion = JNull,
             hasReliableNativeWebSocket = JBool True, requiresWsPackage_field = JBool False \<rparr>
   \<and> (\<exists>r. getWebSocketEnvironmentInfo sample_own_split
            [(''process'', JObj [(''versions'', JObj [(''node'', JStr ''20.11.0'')])])] = Inr r)
   \<and> (\<exists>r. getWebSocketEnvironmentInfo sample_own_split
            [(''process'', JObj [(''browser'', JBool True)])] = Inr r)"
  using getWebSocketEnvironmentInfo_returns [of "[]" sample_own_split]
    getWebSocketEnvironmentInfo_returns
      [of "[(''process'', JObj [(''versions'', JObj [(''node'', JStr ''20.11.0'')])])]"
          sample_own_split]
    getWebSocketEnvironmentInfo_returns
      [of "[(''process'', JObj [(''browser'', JBool True)])]" sample_own_split]
  by (simp add: reported_version_def)



text \<open>
  C10, as the code has it. With \<^verbatim>\<open>globalThis.process = null\<close> the global passes
  the existence test of line 69 and has no version metadata, and the function throws
  instead of returning \<open>isNode = false\<close>.
\<close>

theorem getWebSocketEnvironmentInfo_no_version_counterexample:
  "map_of [(''process'', JNull)] ''process'' = Some JNull
   \<and> typeof JNull \<noteq> ''undefined''
   \<and> property_of JNull ''versions'' = JUndefined
   \<and> reported_version [(''process'', JNull)] = JUndefined
   \<and> getWebSocketEnvironmentInfo sample_own_split [(''process'', JNull)] = Inl TypeError"
  by (simp add: reported_version_def getWebSocketEnvironmentInfo_def and_then_def)

text \<open>
  C10, amended. \<open>getWebSocketEnvironmentInfo\<close> returns \<open>isNode = false\<close> and
  \<open>nodeMajorVersion = null\<close> whenever the process global is absent, or is there and
  not \<^verbatim>\<open>null\<close>, and reports no version or a falsy one: \<^verbatim>\<open>versions\<close>
  undefined, \<^verbatim>\<open>node\<close> absent, \<^verbatim>\<open>node\<close> the empty string. And in every
  record it returns, \<open>isNode\<close> is a boolean, the truthiness of the reported version,
  never a string.
\<close>

theorem getWebSocketEnvironmentInfo_no_version:
  "(map_of globalThis ''process'' \<noteq> Some JNull
      \<and> \<not> to_boolean (reported_version globalThis) \<longrightarrow>
    getWebSocketEnvironmentInfo own_split globalThis =
      Inr \<lparr> isNode = JBool False, nodeMajorVersion = JNull,
            hasReliableNativeWebSocket = JBool True, requiresWsPackage_field = JBool False \<rparr>)
   \<and> (getWebSocketEnvironmentInfo own_split globalThis = Inr r \<longrightarrow>
        isNode r = JBool (to_boolean (reported_version globalThis))
        \<and> (\<forall>v. isNode r \<noteq> JStr v))"
proof (intro conjI impI)
  assume "map_of globalThis ''process'' \<noteq> Some JNull
      \<and> \<not> to_boolean (reported_version globalThis)"
  then show "getWebSocketEnvironmentInfo own_split globalThis =
      Inr \<lparr> isNode = JBool False, nodeMajorVersion = JNull,
            hasReliableNativeWebSocket = JBool True, requiresWsPackage_field = JBool False \<rparr>"
    by (simp add: no_version)
next
  assume returned: "getWebSocketEnvironmentInfo own_split globalThis = Inr r"
  then show "isNode r = JBool (to_boolean (reported_version globalThis))"
    by (rule returned_isNode)
  then show "\<forall>v. isNode r \<noteq> JStr v"
    by simp
qed

theorem getWebSocketEnvironmentInfo_no_version_witness:
  "getWebSocketEnvironmentInfo sample_own_split [(''process'', JObj [])] =
      Inr \<lparr> isNode = JBool False, nodeMajorVersion = JNull,
            hasReliableNativeWebSocket = JBool True, requiresWsPackage_field = JBool False \<rparr>
   \<and> getWebSocketEnvironmentInfo sample_own_split [(''process'', JObj [(''versions'', JObj [])])] =
      Inr \<lparr> isNode = JBool False, nodeMajorVersion = JNull,
            hasReliableNativeWebSocket = JBool True, requiresWsPackage_field = JBool False \<rparr>
   \<and> getWebSocketEnvironmentInfo sample_own_split
        [(''process'', JObj [(''versions'', JObj [(''node'', JStr '''')])])] =
      Inr \<lparr> isNode = JBool False, nodeMajorVersion = JNull,
            hasReliableNativeWebSocket = JBool True, requiresWsPackage_field = JBool False \<rparr>
   \<and> getWebSocketEnvironmentInfo sample_own_split
        [(''process'', JObj [(''versions'', JObj [(''node'', JObj [(''split'', JFunction 0)])])])] =
      Inr \<lparr> isNode = JBool True, nodeMajorVersion = JNum (Fin 20),
            hasReliableNativeWebSocket = JBool True, requiresWsPackage_field = JBool False \<rparr>"
proof -
  let ?none = "\<lparr> isNode = JBool False, nodeMajorVersion = JNull,
      hasReliableNativeWebSocket = JBool True, requiresWsPackage_field = JBool False \<rparr>"
  let ?own = "\<lparr> isNode = JBool True, nodeMajorVersion = JNum (Fin 20),
      hasReliableNativeWebSocket = JBool True, requiresWsPackage_field = JBool False \<rparr>"
  have no_versions: "reported_version [(''process'', JObj [])] = JUndefined"
    and no_node: "reported_version [(''process'', JObj [(''versions'', JObj [])])] = JUndefined"
    and empty_node: "reported_version
          [(''process'', JObj [(''versions'', JObj [(''node'', JStr '''')])])] = JStr ''''"
    by (simp_all add: reported_version_def)
  have own: "getWebSocketEnvironmentInfo sample_own_split
        [(''process'', JObj [(''versions'', JObj [(''node'', JObj [(''split'', JFunction 0)])])])] =
      Inr ?own"
    by (simp add: getWebSocketEnvironmentInfo_def and_then_def optional_get_def
          parse_major_version_def sample_own_split_def)
  show ?thesis
    using getWebSocketEnvironmentInfo_no_version
        [of "[(''process'', JObj [])]" sample_own_split ?none]
      getWebSocketEnvironmentInfo_no_version
        [of "[(''process'', JObj [(''versions'', JObj [])])]" sample_own_split ?none]
      getWebSocketEnvironmentInfo_no_version
        [of "[(''process'', JObj [(''versions'', JObj [(''node'', JStr '''')])])]"
            sample_own_split ?none]
      own
    by (simp add: no_versions no_node empty_node)
qed

end
